theory Spec2Isabelle
  imports Main "HOL-Library.Sublist"
begin

section \<open>Go values used by the token credential provider\<close>

text \<open>
  A Go \<open>error\<close> built by \<open>fmt.Errorf\<close>: the text that \<open>Error()\<close> returns and, when the
  format string has a \<open>%w\<close> verb, the error that \<open>errors.Unwrap\<close> gives back.
\<close>

datatype goerror = GoError (message: string) (unwrap: "goerror option")

text \<open>\<open>fmt.Errorf(pre + "%w", err)\<close>: the text of \<open>err\<close> after the prefix, \<open>err\<close> wrapped.\<close>

definition Errorf_w :: "string \<Rightarrow> goerror \<Rightarrow> goerror" where
  "Errorf_w pre err = GoError (pre @ message err) (Some err)"

text \<open>
  A call either returns its results or panics on a nil pointer dereference. A Go function
  with results \<open>(v, error)\<close> returns the pair; a nil \<open>error\<close> is \<open>None\<close>.
\<close>

datatype 'a outcome = Panic | Return 'a

subsection \<open>consts.go\<close>

definition ProviderSecretKeyAppRole :: string where "ProviderSecretKeyAppRole = ''id''"
definition ProviderSecretKeyJWT :: string where "ProviderSecretKeyJWT = ''jwt''"
definition ProviderSecretKeyToken :: string where "ProviderSecretKeyToken = ''token''"
definition ProviderMethodKubernetes :: string where "ProviderMethodKubernetes = ''kubernetes''"
definition ProviderMethodJWT :: string where "ProviderMethodJWT = ''jwt''"
definition ProviderMethodAppRole :: string where "ProviderMethodAppRole = ''appRole''"
definition ProviderMethodAWS :: string where "ProviderMethodAWS = ''aws''"
definition ProviderMethodGCP :: string where "ProviderMethodGCP = ''gcp''"
definition ProviderMethodToken :: string where "ProviderMethodToken = ''token''"

subsection \<open>The configuration object (api/v1beta1) and the provider\<close>

text \<open>
  The fields of \<open>VaultAuth\<close> that the provider and its tests touch. \<open>Token\<close> is a pointer
  (\<open>*VaultAuthConfigToken\<close>), nil when the token method is not configured; the provider's
  \<open>authObj\<close> is a pointer too, nil in a provider constructed empty.
\<close>

record VaultAuthConfigToken =
  FilePath :: string

record VaultAuthSpec =
  Method :: string
  Token :: "VaultAuthConfigToken option"

record VaultAuth =
  Spec :: VaultAuthSpec

record TokenCredentialProvider =
  authObj :: "VaultAuth option"
  providerNamespace :: string
  uid :: string

text \<open>
  Modelled from the spec: \<open>VaultAuthConfigToken.Validate\<close> is declared in api/v1beta1, which
  is not among the sources. The spec says it "fails when \<open>FilePath\<close> is empty", and the test
  of \<open>Init\<close> expects the text "empty filePath" after the prefix that \<open>Init\<close> adds.
  \<open>Init\<close> below takes the validation as a parameter; this is the instance the spec describes.
\<close>

definition Validate :: "VaultAuthConfigToken \<Rightarrow> goerror option" where
  "Validate c = (if FilePath c = [] then Some (GoError ''empty filePath'' None) else None)"

subsection \<open>The world outside the provider\<close>

text \<open>
  \<open>files\<close> is what \<open>os.ReadFile\<close> answers for each path at this moment: the bytes of the
  file, or the error of the failed read. \<open>reads\<close> records the paths handed to
  \<open>os.ReadFile\<close> so far and \<open>logged\<close> the entries emitted through \<open>logger.Error\<close>, oldest
  first.
\<close>

record world =
  files :: "string \<Rightarrow> goerror + string"
  reads :: "string list"
  logged :: "(goerror \<times> string) list"

definition os_ReadFile :: "world \<Rightarrow> string \<Rightarrow> world \<times> string \<times> goerror option" where
  "os_ReadFile w name =
     (w\<lparr>reads := reads w @ [name]\<rparr>,
      case files w name of Inl e \<Rightarrow> ([], Some e) | Inr data \<Rightarrow> (data, None))"

definition logger_Error :: "world \<Rightarrow> goerror \<Rightarrow> string \<Rightarrow> world" where
  "logger_Error w err msg = w\<lparr>logged := logged w @ [(err, msg)]\<rparr>"

section \<open>strings.TrimSpace\<close>

text \<open>
  \<open>strings.TrimSpace\<close> removes leading and trailing white space "as defined by Unicode"
  from a string of bytes read as UTF-8. \<open>unicode.IsSpace\<close> holds of the code points
  U+0009 to U+000D, U+0020, U+0085, U+00A0, U+1680, U+2000 to U+200A, U+2028, U+2029,
  U+202F, U+205F and U+3000. Go's decoder accepts only the shortest encoding of a code
  point and yields U+FFFD (not a space) of width one for a malformed byte, so a string
  starts (ends) with a space rune exactly when one of the encodings below is a prefix
  (suffix) of it.
\<close>

definition asciiSpace :: "string list" where
  "asciiSpace = [[CHR 0x09], [CHR 0x0A], [CHR 0x0B], [CHR 0x0C], [CHR 0x0D], [CHR 0x20]]"

definition unicodeSpace :: "string list" where
  "unicodeSpace =
     [[CHR 0xC2, CHR 0x85], [CHR 0xC2, CHR 0xA0], [CHR 0xE1, CHR 0x9A, CHR 0x80],
      [CHR 0xE2, CHR 0x80, CHR 0x80], [CHR 0xE2, CHR 0x80, CHR 0x81],
      [CHR 0xE2, CHR 0x80, CHR 0x82], [CHR 0xE2, CHR 0x80, CHR 0x83],
      [CHR 0xE2, CHR 0x80, CHR 0x84], [CHR 0xE2, CHR 0x80, CHR 0x85],
      [CHR 0xE2, CHR 0x80, CHR 0x86], [CHR 0xE2, CHR 0x80, CHR 0x87],
      [CHR 0xE2, CHR 0x80, CHR 0x88], [CHR 0xE2, CHR 0x80, CHR 0x89],
      [CHR 0xE2, CHR 0x80, CHR 0x8A], [CHR 0xE2, CHR 0x80, CHR 0xA8],
      [CHR 0xE2, CHR 0x80, CHR 0xA9], [CHR 0xE2, CHR 0x80, CHR 0xAF],
      [CHR 0xE2, CHR 0x81, CHR 0x9F], [CHR 0xE3, CHR 0x80, CHR 0x80]]"

definition spaceRunes :: "string list" where
  "spaceRunes = asciiSpace @ unicodeSpace"

text \<open>The encoding of the space rune that the string starts with (ends with), if any.\<close>

definition leadingSpace :: "string \<Rightarrow> string option" where
  "leadingSpace s = find (\<lambda>e. prefix e s) spaceRunes"

definition trailingSpace :: "string \<Rightarrow> string option" where
  "trailingSpace s = find (\<lambda>e. prefix (rev e) (rev s)) spaceRunes"

text \<open>\<open>TrimLeftFunc(s, unicode.IsSpace)\<close>: drop space runes from the front.\<close>

function trimLeft :: "string \<Rightarrow> string" where
  "trimLeft s =
     (case leadingSpace s of None \<Rightarrow> s | Some e \<Rightarrow> trimLeft (drop (length e) s))"
  by pat_completeness auto
termination
proof (relation "measure length")
  show "wf (measure length)" by simp
next
  fix s e
  assume "leadingSpace s = Some e"
  then have "e \<in> set spaceRunes" and "prefix e s"
    by (auto simp: leadingSpace_def find_Some_iff)
  moreover from \<open>e \<in> set spaceRunes\<close> have "e \<noteq> []"
    by (auto simp: spaceRunes_def asciiSpace_def unicodeSpace_def)
  ultimately have "e \<noteq> []" and "prefix e s" by simp_all
  then show "(drop (length e) s, s) \<in> measure length"
    by (auto simp: prefix_def)
qed

text \<open>\<open>TrimRightFunc(s, unicode.IsSpace)\<close>: drop space runes from the back.\<close>

function trimRight :: "string \<Rightarrow> string" where
  "trimRight s =
     (case trailingSpace s of None \<Rightarrow> s
      | Some e \<Rightarrow> trimRight (take (length s - length e) s))"
  by pat_completeness auto
termination
proof (relation "measure length")
  show "wf (measure length)" by simp
next
  fix s e
  assume "trailingSpace s = Some e"
  then have "e \<in> set spaceRunes" and "suffix e s"
    by (auto simp: trailingSpace_def find_Some_iff suffix_to_prefix)
  moreover from \<open>e \<in> set spaceRunes\<close> have "e \<noteq> []"
    by (auto simp: spaceRunes_def asciiSpace_def unicodeSpace_def)
  ultimately have "e \<noteq> []" and "suffix e s" by simp_all
  then show "(take (length s - length e) s, s) \<in> measure length"
    by (auto simp: suffix_def)
qed

declare trimLeft.simps [simp del] trimRight.simps [simp del]

definition TrimSpace :: "string \<Rightarrow> string" where
  "TrimSpace s = trimRight (trimLeft s)"

section \<open>TokenCredentialProvider\<close>

definition NewTokenCredentialProvider ::
  "VaultAuth option \<Rightarrow> string \<Rightarrow> string \<Rightarrow> TokenCredentialProvider" where
  "NewTokenCredentialProvider a ns u = \<lparr>authObj = a, providerNamespace = ns, uid = u\<rparr>"

definition GetNamespace :: "TokenCredentialProvider \<Rightarrow> string" where
  "GetNamespace t = providerNamespace t"

definition GetUID :: "TokenCredentialProvider \<Rightarrow> string" where
  "GetUID t = uid t"

text \<open>
  The methods with effects take the world and the receiver and return both with the
  results. \<open>t.authObj.Spec.Token.FilePath\<close> dereferences \<open>t.authObj\<close> and then \<open>Token\<close>:
  either being nil is a panic.
\<close>

definition readTokenFile ::
  "world \<Rightarrow> TokenCredentialProvider \<Rightarrow>
   world \<times> TokenCredentialProvider \<times> (string \<times> goerror option) outcome" where
  "readTokenFile w t =
     (case authObj t of
        None \<Rightarrow> (w, t, Panic)
      | Some a \<Rightarrow>
         (case Token (Spec a) of
            None \<Rightarrow> (w, t, Panic)
          | Some c \<Rightarrow>
             (let filePath = FilePath c in
              if filePath = [] then
                (w, t, Return ([], Some (GoError ''file path is empty'' None)))
              else
                (case os_ReadFile w filePath of
                   (w', data, Some err) \<Rightarrow>
                     (w', t, Return ([], Some (Errorf_w
                        (''failed to read token file '' @ filePath @ '': '') err)))
                 | (w', data, None) \<Rightarrow>
                     (let token = TrimSpace data in
                      if token = [] then
                        (w', t, Return ([], Some (GoError
                           (''token file '' @ filePath @
                            '' is empty or contains only whitespace'') None)))
                      else (w', t, Return (token, None)))))))"

text \<open>
  \<open>Init\<close>; \<open>ctx\<close> and \<open>client\<close> are not used by the body. \<open>validate\<close> stands for
  \<open>authObj.Spec.Token.Validate\<close>.
\<close>

definition Init ::
  "(VaultAuthConfigToken \<Rightarrow> goerror option) \<Rightarrow> world \<Rightarrow> TokenCredentialProvider \<Rightarrow>
   VaultAuth option \<Rightarrow> string \<Rightarrow>
   world \<times> TokenCredentialProvider \<times> goerror option outcome" where
  "Init validate w t authObj' providerNamespace' =
     (case authObj' of
        None \<Rightarrow> (w, t, Panic)
      | Some a \<Rightarrow>
         (case Token (Spec a) of
            None \<Rightarrow> (w, t, Return (Some (GoError ''token auth method not configured'' None)))
          | Some c \<Rightarrow>
             (case validate c of
                Some err \<Rightarrow>
                  (w, t, Return (Some (Errorf_w ''invalid token auth configuration: '' err)))
              | None \<Rightarrow>
                 (case readTokenFile w
                         (t\<lparr>authObj := authObj', providerNamespace := providerNamespace'\<rparr>) of
                    (w', t', Panic) \<Rightarrow> (w', t', Panic)
                  | (w', t', Return (_, Some err)) \<Rightarrow> (w', t', Return (Some err))
                  | (w', t', Return (_, None)) \<Rightarrow>
                      (w', t'\<lparr>uid := ''token-file-provider''\<rparr>, Return None)))))"

text \<open>\<open>GetCreds\<close>; the credential set is a Go map, nil (\<open>None\<close>) when an error is returned.\<close>

definition GetCreds ::
  "world \<Rightarrow> TokenCredentialProvider \<Rightarrow>
   world \<times> TokenCredentialProvider \<times> ((string \<rightharpoonup> string) option \<times> goerror option) outcome" where
  "GetCreds w t =
     (case readTokenFile w t of
        (w', t', Panic) \<Rightarrow> (w', t', Panic)
      | (w', t', Return (token, Some err)) \<Rightarrow>
          (logger_Error w' err ''Failed to read token from file'', t', Return (None, Some err))
      | (w', t', Return (token, None)) \<Rightarrow>
          (w', t', Return (Some [''token'' \<mapsto> token], None)))"

text \<open>
  A caller that refreshes credentials once per cycle: one \<open>GetCreds\<close> call for each
  element of the list, which is the content of the file system at that cycle (an
  external agent may rotate the file between two calls).
\<close>

fun GetCreds_calls ::
  "(string \<Rightarrow> goerror + string) list \<Rightarrow> world \<Rightarrow> TokenCredentialProvider \<Rightarrow>
   world \<times> TokenCredentialProvider" where
  "GetCreds_calls [] w t = (w, t)"
| "GetCreds_calls (f # fs) w t =
     (case GetCreds (w\<lparr>files := f\<rparr>) t of (w', t', _) \<Rightarrow> GetCreds_calls fs w' t')"

section \<open>Fixtures of the repository's tests\<close>

text \<open>
  The files that the tests write before they call the provider (a valid token, a token
  with white space around it, an empty file, a file of white space only); every other
  path, \<open>/non/existent/path\<close> among them, fails to open.
\<close>

definition test_files :: "string \<Rightarrow> goerror + string" where
  "test_files p =
     (if p = ''/tmp/token-test/valid-token'' then Inr ''vault-token-value''
      else if p = ''/tmp/token-test/token-with-whitespace''
        then Inr (''  vault-token-value'' @ [CHR 0x0A] @ ''  '')
      else if p = ''/tmp/token-test/empty-token'' then Inr []
      else if p = ''/tmp/token-test/whitespace-token''
        then Inr (''   '' @ [CHR 0x0A, CHR 0x09] @ ''  '')
      else Inl (GoError (''open '' @ p @ '': no such file or directory'') None))"

text \<open>The file system after the temporary directory has been removed.\<close>

definition no_files :: "string \<Rightarrow> goerror + string" where
  "no_files p = Inl (GoError (''open '' @ p @ '': no such file or directory'') None)"

text \<open>\<open>os.WriteFile(path, contents, 0600)\<close> into that empty file system.\<close>

definition written_file :: "string \<Rightarrow> string \<Rightarrow> string \<Rightarrow> goerror + string" where
  "written_file path contents p = (if p = path then Inr contents else no_files p)"

definition test_world :: world where
  "test_world = \<lparr>files = test_files, reads = [], logged = []\<rparr>"

text \<open>\<open>&VaultAuth{Spec: VaultAuthSpec{Method: "token", Token: &VaultAuthConfigToken{FilePath: p}}}\<close>\<close>

definition token_auth :: "string \<Rightarrow> VaultAuth" where
  "token_auth p = \<lparr>Spec = \<lparr>Method = ''token'', Token = Some \<lparr>FilePath = p\<rparr>\<rparr>\<rparr>"

text \<open>\<open>&VaultAuth{Spec: VaultAuthSpec{Method: "token"}}\<close>: the "missing token config" test.\<close>

definition missing_token_auth :: VaultAuth where
  "missing_token_auth = \<lparr>Spec = \<lparr>Method = ''token'', Token = None\<rparr>\<rparr>"

text \<open>\<open>&TokenCredentialProvider{}\<close>\<close>

definition empty_provider :: TokenCredentialProvider where
  "empty_provider = \<lparr>authObj = None, providerNamespace = [], uid = []\<rparr>"

text \<open>
  \<open>&TokenCredentialProvider{authObj: tc.authObj, providerNamespace: providerNamespace}\<close>,
  the provider that the tests of \<open>GetCreds\<close> build around a path.
\<close>

definition test_provider :: "string \<Rightarrow> TokenCredentialProvider" where
  "test_provider p =
     \<lparr>authObj = Some (token_auth p), providerNamespace = ''test-provider-namespace'', uid = []\<rparr>"

text \<open>
  Whether a call returned a non-nil \<open>error\<close>; for a call with results \<open>(v, error)\<close> it is
  applied to the second result.
\<close>

fun returned_error :: "goerror option outcome \<Rightarrow> bool" where
  "returned_error (Return (Some e)) = True"
| "returned_error (Return None) = False"
| "returned_error Panic = False"

section \<open>Properties of \<open>strings.TrimSpace\<close>\<close>

lemma spaceRunes_nonempty: "e \<in> set spaceRunes \<Longrightarrow> e \<noteq> []"
  by (auto simp: spaceRunes_def asciiSpace_def unicodeSpace_def)

lemma leadingSpace_SomeD:
  "leadingSpace s = Some e \<Longrightarrow> e \<in> set spaceRunes \<and> prefix e s"
  by (auto simp: leadingSpace_def find_Some_iff)

lemma trailingSpace_SomeD:
  "trailingSpace s = Some e \<Longrightarrow> e \<in> set spaceRunes \<and> suffix e s"
  by (auto simp: trailingSpace_def find_Some_iff suffix_to_prefix)

lemma leadingSpace_None_iff:
  "leadingSpace s = None \<longleftrightarrow> (\<forall>e\<in>set spaceRunes. \<not> prefix e s)"
  by (auto simp: leadingSpace_def find_None_iff)

lemma trailingSpace_None_iff:
  "trailingSpace s = None \<longleftrightarrow> (\<forall>e\<in>set spaceRunes. \<not> suffix e s)"
  by (auto simp: trailingSpace_def find_None_iff suffix_to_prefix)

lemma trimLeft_None: "leadingSpace s = None \<Longrightarrow> trimLeft s = s"
  by (simp add: trimLeft.simps)

lemma trimRight_None: "trailingSpace s = None \<Longrightarrow> trimRight s = s"
  by (simp add: trimRight.simps)

lemma trimLeft_Nil: "trimLeft [] = []"
  by (rule trimLeft_None) (simp add: leadingSpace_None_iff spaceRunes_nonempty)

lemma trimRight_Nil: "trimRight [] = []"
  by (rule trimRight_None) (simp add: trailingSpace_None_iff spaceRunes_nonempty)

lemma trimLeft_blank: "trimLeft (CHR 0x20 # s) = trimLeft s"
proof -
  have "leadingSpace (CHR 0x20 # s) = Some [CHR 0x20]"
    by (simp add: leadingSpace_def spaceRunes_def asciiSpace_def unicodeSpace_def)
  then show ?thesis
    by (subst trimLeft.simps) simp
qed

lemma trimLeft_newline: "trimLeft (CHR 0x0A # s) = trimLeft s"
proof -
  have "leadingSpace (CHR 0x0A # s) = Some [CHR 0x0A]"
    by (simp add: leadingSpace_def spaceRunes_def asciiSpace_def unicodeSpace_def)
  then show ?thesis
    by (subst trimLeft.simps) simp
qed

lemma trimLeft_tab: "trimLeft (CHR 0x09 # s) = trimLeft s"
proof -
  have "leadingSpace (CHR 0x09 # s) = Some [CHR 0x09]"
    by (simp add: leadingSpace_def spaceRunes_def asciiSpace_def unicodeSpace_def)
  then show ?thesis
    by (subst trimLeft.simps) simp
qed

lemma trimRight_tab: "trimRight (s @ [CHR 0x09]) = trimRight s"
proof -
  have "trailingSpace (s @ [CHR 0x09]) = Some [CHR 0x09]"
    by (simp add: trailingSpace_def spaceRunes_def asciiSpace_def unicodeSpace_def)
  then show ?thesis
    by (subst trimRight.simps) simp
qed

lemma trimRight_newline: "trimRight (s @ [CHR 0x0A]) = trimRight s"
proof -
  have "trailingSpace (s @ [CHR 0x0A]) = Some [CHR 0x0A]"
    by (simp add: trailingSpace_def spaceRunes_def asciiSpace_def unicodeSpace_def)
  then show ?thesis
    by (subst trimRight.simps) simp
qed

text \<open>Only the first byte of a space rune can be a line feed.\<close>

lemma spaceRunes_tl: "e \<in> set spaceRunes \<Longrightarrow> CHR 0x0A \<notin> set (tl e)"
  by (auto simp: spaceRunes_def asciiSpace_def unicodeSpace_def)

lemma leadingSpace_append_newline:
  assumes "leadingSpace s = None" and "s \<noteq> []"
  shows "leadingSpace (s @ CHR 0x0A # r) = None"
proof -
  have "\<not> prefix e (s @ CHR 0x0A # r)" if e: "e \<in> set spaceRunes" for e
  proof
    assume "prefix e (s @ CHR 0x0A # r)"
    moreover have "\<not> prefix e s"
      using assms(1) e by (simp add: leadingSpace_None_iff)
    ultimately obtain us where us: "e = s @ us" "prefix us (CHR 0x0A # r)" "us \<noteq> []"
      by (auto simp: prefix_append)
    then have "hd us = CHR 0x0A"
      by (cases us) auto
    with us have "CHR 0x0A \<in> set us"
      by (cases us) auto
    moreover from us assms(2) have "set us \<subseteq> set (tl e)"
      by (cases s) auto
    ultimately show False
      using spaceRunes_tl [OF e] by blast
  qed
  then show ?thesis
    by (simp add: leadingSpace_None_iff)
qed

lemma TrimSpace_padded:
  assumes "leadingSpace s = None" and "trailingSpace s = None"
  shows "TrimSpace (''  '' @ s @ [CHR 0x0A, CHR 0x09]) = s"
proof (cases "s = []")
  case True
  then show ?thesis
    by (simp add: TrimSpace_def trimLeft_blank trimLeft_newline trimLeft_tab
        trimLeft_Nil trimRight_Nil)
next
  case False
  have "trimLeft (''  '' @ s @ [CHR 0x0A, CHR 0x09]) = trimLeft (s @ [CHR 0x0A, CHR 0x09])"
    by (simp add: trimLeft_blank)
  also have "\<dots> = s @ [CHR 0x0A, CHR 0x09]"
    using assms(1) False by (simp add: trimLeft_None leadingSpace_append_newline)
  finally have "TrimSpace (''  '' @ s @ [CHR 0x0A, CHR 0x09])
      = trimRight ((s @ [CHR 0x0A]) @ [CHR 0x09])"
    by (simp add: TrimSpace_def)
  also have "\<dots> = trimRight s"
    by (simp only: trimRight_tab trimRight_newline)
  also have "\<dots> = s"
    using assms(2) by (rule trimRight_None)
  finally show ?thesis .
qed

lemma TrimSpace_trimmed:
  "leadingSpace s = None \<Longrightarrow> trailingSpace s = None \<Longrightarrow> TrimSpace s = s"
  by (simp add: TrimSpace_def trimLeft_None trimRight_None)

lemma trimLeft_decomp: "\<exists>ls. set ls \<subseteq> set spaceRunes \<and> s = concat ls @ trimLeft s"
proof (induction s rule: trimLeft.induct)
  case (1 s)
  show ?case
  proof (cases "leadingSpace s")
    case None
    then have "set [] \<subseteq> set spaceRunes \<and> s = concat [] @ trimLeft s"
      by (simp add: trimLeft_None)
    then show ?thesis by blast
  next
    case (Some e)
    then have e: "e \<in> set spaceRunes" "prefix e s"
      using leadingSpace_SomeD by blast+
    from "1.IH" [OF Some] obtain ls where
      ls: "set ls \<subseteq> set spaceRunes" "drop (length e) s = concat ls @ trimLeft (drop (length e) s)"
      by blast
    have tl: "trimLeft s = trimLeft (drop (length e) s)"
      using Some by (subst trimLeft.simps) simp
    have "s = e @ drop (length e) s"
      using e(2) by (auto simp: prefix_def)
    with ls(2) tl have "s = concat (e # ls) @ trimLeft s"
      by simp
    moreover have "set (e # ls) \<subseteq> set spaceRunes"
      using e(1) ls(1) by simp
    ultimately show ?thesis by blast
  qed
qed

lemma trimRight_decomp: "\<exists>rs. set rs \<subseteq> set spaceRunes \<and> s = trimRight s @ concat rs"
proof (induction s rule: trimRight.induct)
  case (1 s)
  show ?case
  proof (cases "trailingSpace s")
    case None
    then have "set [] \<subseteq> set spaceRunes \<and> s = trimRight s @ concat []"
      by (simp add: trimRight_None)
    then show ?thesis by blast
  next
    case (Some e)
    then have e: "e \<in> set spaceRunes" "suffix e s"
      using trailingSpace_SomeD by blast+
    define p where "p = take (length s - length e) s"
    from "1.IH" [OF Some] obtain rs where
      rs: "set rs \<subseteq> set spaceRunes" "p = trimRight p @ concat rs"
      unfolding p_def by blast
    have tr: "trimRight s = trimRight p"
      unfolding p_def using Some by (subst trimRight.simps) simp
    have "s = p @ e"
      unfolding p_def using e(2) by (auto simp: suffix_def)
    then have "s = (trimRight p @ concat rs) @ e"
      using rs(2) by simp
    then have "s = trimRight s @ concat (rs @ [e])"
      unfolding tr by simp
    moreover have "set (rs @ [e]) \<subseteq> set spaceRunes"
      using e(1) rs(1) by simp
    ultimately show ?thesis by blast
  qed
qed

lemma leadingSpace_trimLeft: "leadingSpace (trimLeft s) = None"
proof (induction s rule: trimLeft.induct)
  case (1 s)
  show ?case
  proof (cases "leadingSpace s")
    case None
    then show ?thesis by (simp add: trimLeft_None)
  next
    case (Some e)
    then have "trimLeft s = trimLeft (drop (length e) s)"
      by (subst trimLeft.simps) simp
    with "1.IH" [OF Some] show ?thesis by simp
  qed
qed

lemma trailingSpace_trimRight: "trailingSpace (trimRight s) = None"
proof (induction s rule: trimRight.induct)
  case (1 s)
  show ?case
  proof (cases "trailingSpace s")
    case None
    then show ?thesis by (simp add: trimRight_None)
  next
    case (Some e)
    then have "trimRight s = trimRight (take (length s - length e) s)"
      by (subst trimRight.simps) simp
    with "1.IH" [OF Some] show ?thesis by simp
  qed
qed

lemma prefix_trimRight: "prefix (trimRight s) s"
proof -
  obtain rs where "s = trimRight s @ concat rs"
    using trimRight_decomp by blast
  then show ?thesis
    by (metis prefixI)
qed

lemma leadingSpace_TrimSpace: "leadingSpace (TrimSpace s) = None"
proof -
  have "\<not> prefix e (TrimSpace s)" if "e \<in> set spaceRunes" for e
  proof
    assume "prefix e (TrimSpace s)"
    then have "prefix e (trimLeft s)"
      unfolding TrimSpace_def using prefix_trimRight prefix_order.trans by blast
    with that leadingSpace_trimLeft [of s] show False
      by (simp add: leadingSpace_None_iff)
  qed
  then show ?thesis
    by (simp add: leadingSpace_None_iff)
qed

lemma trailingSpace_TrimSpace: "trailingSpace (TrimSpace s) = None"
  by (simp add: TrimSpace_def trailingSpace_trimRight)

lemma TrimSpace_decomp:
  "\<exists>ls rs. set ls \<subseteq> set spaceRunes \<and> set rs \<subseteq> set spaceRunes \<and>
     s = concat ls @ TrimSpace s @ concat rs"
proof -
  obtain ls where ls: "set ls \<subseteq> set spaceRunes" "s = concat ls @ trimLeft s"
    using trimLeft_decomp by blast
  obtain rs where rs: "set rs \<subseteq> set spaceRunes" "trimLeft s = TrimSpace s @ concat rs"
    unfolding TrimSpace_def using trimRight_decomp by blast
  from ls(2) rs(2) have "s = concat ls @ TrimSpace s @ concat rs"
    by simp
  with ls(1) rs(1) show ?thesis by blast
qed

section \<open>Properties of \<open>readTokenFile\<close>\<close>

lemma readTokenFile_bound:
  assumes "authObj t = Some a" and "Token (Spec a) = Some c"
  shows "readTokenFile w t =
    (if FilePath c = [] then (w, t, Return ([], Some (GoError ''file path is empty'' None)))
     else (w\<lparr>reads := reads w @ [FilePath c]\<rparr>, t,
       case files w (FilePath c) of
         Inl cause \<Rightarrow> Return ([], Some (Errorf_w
            (''failed to read token file '' @ FilePath c @ '': '') cause))
       | Inr data \<Rightarrow>
           if TrimSpace data = [] then Return ([], Some (GoError
              (''token file '' @ FilePath c @ '' is empty or contains only whitespace'') None))
           else Return (TrimSpace data, None)))"
  using assms
  by (simp add: readTokenFile_def os_ReadFile_def Let_def split: sum.splits)

lemma readTokenFile_unbound:
  "authObj t = None \<or> (\<exists>a. authObj t = Some a \<and> Token (Spec a) = None) \<Longrightarrow>
   readTokenFile w t = (w, t, Panic)"
  by (auto simp: readTokenFile_def)

lemma readTokenFile_provider: "fst (snd (readTokenFile w t)) = t"
  by (simp add: readTokenFile_def os_ReadFile_def Let_def
      split: option.splits sum.splits prod.splits)

lemma GetCreds_provider: "fst (snd (GetCreds w t)) = t"
proof -
  obtain w' t' r where r: "readTokenFile w t = (w', t', r)"
    by (cases "readTokenFile w t") auto
  with readTokenFile_provider [of w t] have "t' = t"
    by simp
  with r show ?thesis
    by (simp add: GetCreds_def split: outcome.splits option.splits prod.splits)
qed

subsection \<open>The fixtures, evaluated\<close>

lemma TrimSpace_valid: "TrimSpace ''vault-token-value'' = ''vault-token-value''"
  by code_simp

lemma TrimSpace_with_whitespace:
  "TrimSpace (''  vault-token-value'' @ [CHR 0x0A] @ ''  '') = ''vault-token-value''"
  by code_simp

lemma TrimSpace_empty: "TrimSpace [] = []"
  by (simp add: TrimSpace_def trimLeft_Nil trimRight_Nil)

lemma TrimSpace_whitespace_only: "TrimSpace (''   '' @ [CHR 0x0A, CHR 0x09] @ ''  '') = []"
  by code_simp

lemma readTokenFile_test_provider:
  "readTokenFile w (test_provider p) =
    (if p = [] then (w, test_provider p, Return ([], Some (GoError ''file path is empty'' None)))
     else (w\<lparr>reads := reads w @ [p]\<rparr>, test_provider p,
       case files w p of
         Inl cause \<Rightarrow> Return ([], Some (Errorf_w
            (''failed to read token file '' @ p @ '': '') cause))
       | Inr data \<Rightarrow>
           if TrimSpace data = [] then Return ([], Some (GoError
              (''token file '' @ p @ '' is empty or contains only whitespace'') None))
           else Return (TrimSpace data, None)))"
  using readTokenFile_bound [of "test_provider p" "token_auth p" "\<lparr>FilePath = p\<rparr>" w]
  by (simp add: test_provider_def token_auth_def split: sum.splits)

lemma leadingSpace_valid: "leadingSpace ''vault-token-value'' = None"
  by (simp add: leadingSpace_def spaceRunes_def asciiSpace_def unicodeSpace_def)

lemma trailingSpace_valid: "trailingSpace ''vault-token-value'' = None"
  by (simp add: trailingSpace_def spaceRunes_def asciiSpace_def unicodeSpace_def)

section \<open>Properties of \<open>Init\<close>\<close>

text \<open>What \<open>Init\<close> does once the sub-configuration is present and has passed validation.\<close>

lemma Init_validated:
  assumes "Token (Spec a) = Some c" and "validate c = None"
  shows "Init validate w t (Some a) ns =
    (if FilePath c = [] then
       (w, t\<lparr>authObj := Some a, providerNamespace := ns\<rparr>,
        Return (Some (GoError ''file path is empty'' None)))
     else
       (case files w (FilePath c) of
          Inl cause \<Rightarrow>
            (w\<lparr>reads := reads w @ [FilePath c]\<rparr>,
             t\<lparr>authObj := Some a, providerNamespace := ns\<rparr>,
             Return (Some (Errorf_w (''failed to read token file '' @ FilePath c @ '': '') cause)))
        | Inr data \<Rightarrow>
            if TrimSpace data = [] then
              (w\<lparr>reads := reads w @ [FilePath c]\<rparr>,
               t\<lparr>authObj := Some a, providerNamespace := ns\<rparr>,
               Return (Some (GoError (''token file '' @ FilePath c @
                  '' is empty or contains only whitespace'') None)))
            else
              (w\<lparr>reads := reads w @ [FilePath c]\<rparr>,
               t\<lparr>authObj := Some a, providerNamespace := ns, uid := ''token-file-provider''\<rparr>,
               Return None)))"
proof -
  have "authObj (t\<lparr>authObj := Some a, providerNamespace := ns\<rparr>) = Some a"
    by simp
  from readTokenFile_bound [OF this assms(1)] show ?thesis
    using assms by (simp add: Init_def split: sum.splits)
qed

lemma Init_missing:
  "Token (Spec a) = None \<Longrightarrow>
   Init validate w t (Some a) ns
     = (w, t, Return (Some (GoError ''token auth method not configured'' None)))"
  by (simp add: Init_def)

lemma Init_invalid:
  "Token (Spec a) = Some c \<Longrightarrow> validate c = Some cause \<Longrightarrow>
   Init validate w t (Some a) ns
     = (w, t, Return (Some (Errorf_w ''invalid token auth configuration: '' cause)))"
  by (simp add: Init_def)

lemma Init_nil: "Init validate w t None ns = (w, t, Panic)"
  by (simp add: Init_def)

lemma Init_success_state:
  assumes "Init validate w t ao ns = (w', t', Return None)"
  shows "uid t' = ''token-file-provider'' \<and> providerNamespace t' = ns \<and> authObj t' = ao"
proof (cases ao)
  case None
  with assms show ?thesis by (simp add: Init_nil)
next
  case (Some a)
  show ?thesis
  proof (cases "Token (Spec a)")
    case None
    with assms Some show ?thesis by (simp add: Init_missing)
  next
    case c: (Some c)
    show ?thesis
    proof (cases "validate c")
      case None
      have "Init validate w t (Some a) ns = (w', t', Return None)"
        using assms \<open>ao = Some a\<close> by simp
      then show ?thesis
        unfolding Init_validated [of a c validate, OF c None]
        using \<open>ao = Some a\<close> by (auto split: if_splits sum.splits)
    next
      case (Some cause)
      with assms c \<open>ao = Some a\<close> show ?thesis by (simp add: Init_invalid)
    qed
  qed
qed

lemma Init_valid_token:
  "Init Validate test_world empty_provider (Some (token_auth ''/tmp/token-test/valid-token''))
     ''test-provider-namespace''
   = (test_world\<lparr>reads := [''/tmp/token-test/valid-token'']\<rparr>,
      \<lparr>authObj = Some (token_auth ''/tmp/token-test/valid-token''),
       providerNamespace = ''test-provider-namespace'', uid = ''token-file-provider''\<rparr>,
      Return None)"
proof -
  have "Token (Spec (token_auth ''/tmp/token-test/valid-token''))
      = Some \<lparr>FilePath = ''/tmp/token-test/valid-token''\<rparr>"
    by (simp add: token_auth_def)
  moreover have "Validate \<lparr>FilePath = ''/tmp/token-test/valid-token''\<rparr> = None"
    by (simp add: Validate_def)
  ultimately show ?thesis
    by (simp add: Init_validated test_world_def test_files_def empty_provider_def
        TrimSpace_valid)
qed

lemma Init_token_with_whitespace:
  "Init Validate test_world (test_provider ''/a'')
     (Some (token_auth ''/tmp/token-test/token-with-whitespace'')) ''other-namespace''
   = (test_world\<lparr>reads := [''/tmp/token-test/token-with-whitespace'']\<rparr>,
      \<lparr>authObj = Some (token_auth ''/tmp/token-test/token-with-whitespace''),
       providerNamespace = ''other-namespace'', uid = ''token-file-provider''\<rparr>,
      Return None)"
proof -
  have "Token (Spec (token_auth ''/tmp/token-test/token-with-whitespace''))
      = Some \<lparr>FilePath = ''/tmp/token-test/token-with-whitespace''\<rparr>"
    by (simp add: token_auth_def)
  moreover have "Validate \<lparr>FilePath = ''/tmp/token-test/token-with-whitespace''\<rparr> = None"
    by (simp add: Validate_def)
  ultimately show ?thesis
    using TrimSpace_with_whitespace
    by (simp add: Init_validated test_world_def test_files_def test_provider_def)
qed

lemma GetCreds_calls_provider: "snd (GetCreds_calls fss w t) = t"
proof (induction fss arbitrary: w)
  case Nil
  show ?case by simp
next
  case (Cons f fss)
  obtain w' t' r where r: "GetCreds (w\<lparr>files := f\<rparr>) t = (w', t', r)"
    by (cases "GetCreds (w\<lparr>files := f\<rparr>) t") auto
  with GetCreds_provider [of "w\<lparr>files := f\<rparr>" t] have "t' = t"
    by simp
  with r Cons.IH [of w'] show ?case
    by simp
qed

section \<open>The claims\<close>

text \<open>
  C1 (round trip). A provider is bound to a token sub-configuration whose \<open>FilePath\<close>
  names a file (so the path is not empty); the contents of the file, trimmed, are a
  non-empty string \<open>S\<close>. Then \<open>GetCreds\<close> returns no error and a credential set with
  exactly one entry, key "token" (\<open>ProviderSecretKeyToken\<close>), value \<open>S\<close>; it reads that one
  file, logs nothing and leaves the provider as it was.
\<close>

theorem GetCreds_round_trip:
  assumes "authObj t = Some a" and "Token (Spec a) = Some c" and "FilePath c \<noteq> []"
    and "files w (FilePath c) = Inr data" and "TrimSpace data = S" and "S \<noteq> []"
  shows "\<exists>m. GetCreds w t = (w\<lparr>reads := reads w @ [FilePath c]\<rparr>, t, Return (Some m, None))
           \<and> dom m = {ProviderSecretKeyToken} \<and> m ProviderSecretKeyToken = Some S"
  using assms
  by (simp add: GetCreds_def readTokenFile_bound [OF assms(1,2)] ProviderSecretKeyToken_def)

theorem GetCreds_round_trip_witness:
  "\<exists>m. GetCreds test_world (test_provider ''/tmp/token-test/token-with-whitespace'')
        = (test_world\<lparr>reads := [''/tmp/token-test/token-with-whitespace'']\<rparr>,
           test_provider ''/tmp/token-test/token-with-whitespace'', Return (Some m, None))
      \<and> dom m = {''token''} \<and> m ''token'' = Some ''vault-token-value''"
proof -
  let ?p = "''/tmp/token-test/token-with-whitespace''"
  have h1: "authObj (test_provider ?p) = Some (token_auth ?p)"
    by (simp add: test_provider_def)
  have h2: "Token (Spec (token_auth ?p)) = Some \<lparr>FilePath = ?p\<rparr>"
    by (simp add: token_auth_def)
  have h3: "FilePath \<lparr>FilePath = ?p\<rparr> \<noteq> []"
    by simp
  have h4: "files test_world (FilePath \<lparr>FilePath = ?p\<rparr>)
      = Inr (''  vault-token-value'' @ [CHR 0x0A] @ ''  '')"
    by (simp add: test_world_def test_files_def)
  have h6: "''vault-token-value'' \<noteq> []"
    by simp
  show ?thesis
    using GetCreds_round_trip [OF h1 h2 h3 h4 TrimSpace_with_whitespace h6]
    by (simp add: ProviderSecretKeyToken_def test_world_def)
qed

text \<open>
  C2 (the results of \<open>readTokenFile\<close>). On a provider bound to a token sub-configuration:
  an empty \<open>FilePath\<close> gives the error "file path is empty" (EmptyFilePath) with no read;
  a failed read gives an error that wraps the cause and whose text contains the path
  (FileUnreadable); contents that trim to the empty string give an error whose text
  contains the path (EmptyOrWhitespaceToken); otherwise the trimmed contents are returned
  with a nil error. With every error the returned string is empty.
\<close>

theorem readTokenFile_results:
  assumes "authObj t = Some a" and "Token (Spec a) = Some c"
  shows "(FilePath c = [] \<longrightarrow>
            readTokenFile w t = (w, t, Return ([], Some (GoError ''file path is empty'' None))))
     \<and> (\<forall>cause. FilePath c \<noteq> [] \<and> files w (FilePath c) = Inl cause \<longrightarrow>
          (\<exists>e. snd (snd (readTokenFile w t)) = Return ([], Some e) \<and> unwrap e = Some cause
             \<and> message e = ''failed to read token file '' @ FilePath c @ '': '' @ message cause
             \<and> sublist (FilePath c) (message e)))
     \<and> (\<forall>data. FilePath c \<noteq> [] \<and> files w (FilePath c) = Inr data \<and> TrimSpace data = [] \<longrightarrow>
          (\<exists>e. snd (snd (readTokenFile w t)) = Return ([], Some e) \<and> unwrap e = None
             \<and> message e
                 = ''token file '' @ FilePath c @ '' is empty or contains only whitespace''
             \<and> sublist (FilePath c) (message e)))
     \<and> (\<forall>data. FilePath c \<noteq> [] \<and> files w (FilePath c) = Inr data \<and> TrimSpace data \<noteq> [] \<longrightarrow>
          snd (snd (readTokenFile w t)) = Return (TrimSpace data, None))"
proof -
  have s1: "sublist p (''failed to read token file '' @ p @ '': '' @ m)" for p m :: string
    by (rule sublist_appendI)
  have s2: "sublist p (''token file '' @ p @ '' is empty or contains only whitespace'')"
    for p :: string
    by (rule sublist_appendI)
  show ?thesis
    using s1 s2 by (simp add: readTokenFile_bound [OF assms] Errorf_w_def)
qed

theorem readTokenFile_results_witness:
  "readTokenFile test_world (test_provider [])
     = (test_world, test_provider [], Return ([], Some (GoError ''file path is empty'' None)))
   \<and> (\<exists>e. snd (snd (readTokenFile test_world (test_provider ''/non/existent/path'')))
            = Return ([], Some e)
        \<and> unwrap e = Some (GoError ''open /non/existent/path: no such file or directory'' None)
        \<and> message e = ''failed to read token file /non/existent/path: open /non/existent/path: no such file or directory''
        \<and> sublist ''/non/existent/path'' (message e))
   \<and> (\<exists>e. snd (snd (readTokenFile test_world (test_provider ''/tmp/token-test/whitespace-token'')))
            = Return ([], Some e)
        \<and> unwrap e = None
        \<and> message e = ''token file /tmp/token-test/whitespace-token is empty or contains only whitespace''
        \<and> sublist ''/tmp/token-test/whitespace-token'' (message e))
   \<and> snd (snd (readTokenFile test_world (test_provider ''/tmp/token-test/token-with-whitespace'')))
       = Return (''vault-token-value'', None)"
proof -
  have b: "authObj (test_provider p) = Some (token_auth p)"
    "Token (Spec (token_auth p)) = Some \<lparr>FilePath = p\<rparr>" for p
    by (simp_all add: test_provider_def token_auth_def)
  have "readTokenFile test_world (test_provider [])
     = (test_world, test_provider [], Return ([], Some (GoError ''file path is empty'' None)))"
    using readTokenFile_results [OF b, of "[]" test_world] by simp
  moreover have "\<exists>e. snd (snd (readTokenFile test_world (test_provider ''/non/existent/path'')))
            = Return ([], Some e)
        \<and> unwrap e = Some (GoError ''open /non/existent/path: no such file or directory'' None)
        \<and> message e = ''failed to read token file /non/existent/path: open /non/existent/path: no such file or directory''
        \<and> sublist ''/non/existent/path'' (message e)"
    using readTokenFile_results [OF b, of "''/non/existent/path''" test_world]
    by (simp add: test_world_def test_files_def)
  moreover have "\<exists>e. snd (snd (readTokenFile test_world (test_provider ''/tmp/token-test/whitespace-token'')))
            = Return ([], Some e)
        \<and> unwrap e = None
        \<and> message e = ''token file /tmp/token-test/whitespace-token is empty or contains only whitespace''
        \<and> sublist ''/tmp/token-test/whitespace-token'' (message e)"
    using readTokenFile_results [OF b, of "''/tmp/token-test/whitespace-token''" test_world]
      TrimSpace_whitespace_only
    by (simp add: test_world_def test_files_def)
  moreover have "snd (snd (readTokenFile test_world (test_provider ''/tmp/token-test/token-with-whitespace'')))
       = Return (''vault-token-value'', None)"
    using readTokenFile_results [OF b, of "''/tmp/token-test/token-with-whitespace''" test_world]
      TrimSpace_with_whitespace
    by (simp add: test_world_def test_files_def)
  ultimately show ?thesis by blast
qed

text \<open>
  C8 (static identifier). Whenever \<open>Init\<close> returns a nil error, \<open>GetUID\<close> of the provider
  is the literal "token-file-provider", whatever validation, world, earlier state,
  configuration and namespace the call had; so any two providers that were initialised
  successfully report the same identifier.
\<close>

theorem Init_static_uid:
  assumes "Init validate w t ao ns = (w', t', Return None)"
    and "Init validate2 w2 t2 ao2 ns2 = (w2', t2', Return None)"
  shows "GetUID t' = ''token-file-provider'' \<and> GetUID t2' = GetUID t'"
  using Init_success_state [OF assms(1)] Init_success_state [OF assms(2)]
  by (simp add: GetUID_def)

theorem Init_static_uid_witness:
  "GetUID (fst (snd (Init Validate test_world empty_provider
       (Some (token_auth ''/tmp/token-test/valid-token'')) ''test-provider-namespace'')))
     = ''token-file-provider''
   \<and> GetUID (fst (snd (Init Validate test_world (test_provider ''/a'')
       (Some (token_auth ''/tmp/token-test/token-with-whitespace'')) ''other-namespace'')))
     = GetUID (fst (snd (Init Validate test_world empty_provider
       (Some (token_auth ''/tmp/token-test/valid-token'')) ''test-provider-namespace'')))"
  using Init_static_uid [OF Init_valid_token Init_token_with_whitespace]
  by (simp add: Init_valid_token Init_token_with_whitespace)

text \<open>
  C5 (configuration errors of \<open>Init\<close>). With the token sub-configuration absent, \<open>Init\<close>
  returns an error whose text contains "token auth method not configured"
  (ConfigurationMissing); with a sub-configuration that any validation rejects, it returns
  an error that wraps the cause of the validation, after the prefix "invalid token auth
  configuration: " (ConfigurationInvalid). In both cases the world comes back as it was,
  so no file has been read, and the provider is untouched.
\<close>

theorem Init_configuration_errors:
  "(Token (Spec a) = None \<longrightarrow>
      (\<exists>e. Init validate w t (Some a) ns = (w, t, Return (Some e)) \<and> unwrap e = None
         \<and> sublist ''token auth method not configured'' (message e)))
   \<and> (\<forall>c cause. Token (Spec a) = Some c \<and> validate c = Some cause \<longrightarrow>
      (\<exists>e. Init validate w t (Some a) ns = (w, t, Return (Some e)) \<and> unwrap e = Some cause
         \<and> message e = ''invalid token auth configuration: '' @ message cause))"
  by (simp add: Init_missing Init_invalid Errorf_w_def)

theorem Init_configuration_errors_witness:
  "(\<exists>e. Init Validate test_world empty_provider (Some missing_token_auth)
           ''test-provider-namespace'' = (test_world, empty_provider, Return (Some e))
      \<and> unwrap e = None \<and> sublist ''token auth method not configured'' (message e))
   \<and> (\<exists>e. Init Validate test_world empty_provider (Some (token_auth []))
           ''test-provider-namespace'' = (test_world, empty_provider, Return (Some e))
      \<and> unwrap e = Some (GoError ''empty filePath'' None)
      \<and> message e = ''invalid token auth configuration: empty filePath'')"
proof -
  have "Token (Spec missing_token_auth) = None"
    by (simp add: missing_token_auth_def)
  moreover have "Token (Spec (token_auth [])) = Some \<lparr>FilePath = []\<rparr>
      \<and> Validate \<lparr>FilePath = []\<rparr> = Some (GoError ''empty filePath'' None)"
    by (simp add: token_auth_def Validate_def)
  ultimately show ?thesis
    using Init_configuration_errors
        [of missing_token_auth Validate test_world empty_provider "''test-provider-namespace''"]
      Init_configuration_errors
        [of "token_auth []" Validate test_world empty_provider "''test-provider-namespace''"]
    by simp
qed

text \<open>
  C4 (no partial output). Whatever \<open>GetCreds\<close> returns, an error comes with a nil credential
  set, and a nil error comes with the complete set: the one entry "token" with a
  non-empty value.
\<close>

theorem GetCreds_no_partial_output:
  assumes "GetCreds w t = (w', t', Return (creds, err))"
  shows "case err of
           Some e \<Rightarrow> creds = None
         | None \<Rightarrow> \<exists>S. S \<noteq> [] \<and> creds = Some [''token'' \<mapsto> S]"
proof -
  obtain w1 t1 r where r: "readTokenFile w t = (w1, t1, r)"
    by (cases "readTokenFile w t") auto
  show ?thesis
  proof (cases r)
    case Panic
    with assms r show ?thesis by (simp add: GetCreds_def)
  next
    case (Return p)
    obtain tok e where p: "p = (tok, e)" by (cases p)
    show ?thesis
    proof (cases e)
      case None
      with r Return p have "tok \<noteq> []"
        by (auto simp: readTokenFile_def os_ReadFile_def Let_def
            split: option.splits sum.splits if_splits)
      with assms r Return p None show ?thesis
        by (auto simp: GetCreds_def)
    next
      case (Some e')
      with assms r Return p show ?thesis
        by (auto simp: GetCreds_def)
    qed
  qed
qed

theorem GetCreds_no_partial_output_witness:
  "snd (snd (GetCreds test_world (test_provider ''/tmp/token-test/empty-token'')))
     = Return (None, Some (GoError
        ''token file /tmp/token-test/empty-token is empty or contains only whitespace'' None))
   \<and> snd (snd (GetCreds test_world (test_provider ''/tmp/token-test/valid-token'')))
     = Return (Some [''token'' \<mapsto> ''vault-token-value''], None)"
proof -
  let ?e = "GoError
    ''token file /tmp/token-test/empty-token is empty or contains only whitespace'' None"
  have "\<exists>w' creds. GetCreds test_world (test_provider ''/tmp/token-test/empty-token'')
      = (w', test_provider ''/tmp/token-test/empty-token'', Return (creds, Some ?e))"
    by (simp add: GetCreds_def readTokenFile_test_provider test_world_def test_files_def
        TrimSpace_empty)
  then obtain w' creds where
    r: "GetCreds test_world (test_provider ''/tmp/token-test/empty-token'')
      = (w', test_provider ''/tmp/token-test/empty-token'', Return (creds, Some ?e))"
    by blast
  from GetCreds_no_partial_output [OF r] have "creds = None"
    by simp
  with r have 1: "snd (snd (GetCreds test_world (test_provider ''/tmp/token-test/empty-token'')))
     = Return (None, Some ?e)"
    by simp
  have "\<exists>w' creds. GetCreds test_world (test_provider ''/tmp/token-test/valid-token'')
      = (w', test_provider ''/tmp/token-test/valid-token'', Return (creds, None))
      \<and> (\<forall>S. creds = Some [''token'' \<mapsto> S] \<longrightarrow> S = ''vault-token-value'')"
    by (auto simp: GetCreds_def readTokenFile_test_provider test_world_def test_files_def
        TrimSpace_valid dest: map_upd_eqD1)
  then obtain w2 creds2 where
    r2: "GetCreds test_world (test_provider ''/tmp/token-test/valid-token'')
      = (w2, test_provider ''/tmp/token-test/valid-token'', Return (creds2, None))"
    and u: "\<forall>S. creds2 = Some [''token'' \<mapsto> S] \<longrightarrow> S = ''vault-token-value''"
    by blast
  from GetCreds_no_partial_output [OF r2] u have "creds2 = Some [''token'' \<mapsto> ''vault-token-value'']"
    by auto
  with r2 have 2: "snd (snd (GetCreds test_world (test_provider ''/tmp/token-test/valid-token'')))
     = Return (Some [''token'' \<mapsto> ''vault-token-value''], None)"
    by simp
  from 1 2 show ?thesis by simp
qed

text \<open>
  C10 (nil configuration). \<open>readTokenFile\<close> and \<open>GetCreds\<close> panic on a nil pointer exactly
  when the provider's \<open>authObj\<close> is nil or its \<open>Token\<close> sub-configuration is nil; the panic
  comes before any read or log entry. With a sub-configuration bound they return a
  credential set or an error.
\<close>

theorem nil_configuration_panics:
  "(snd (snd (readTokenFile w t)) = Panic
      \<longleftrightarrow> authObj t = None \<or> (\<exists>a. authObj t = Some a \<and> Token (Spec a) = None))
   \<and> (snd (snd (GetCreds w t)) = Panic
      \<longleftrightarrow> authObj t = None \<or> (\<exists>a. authObj t = Some a \<and> Token (Spec a) = None))
   \<and> (authObj t = None \<or> (\<exists>a. authObj t = Some a \<and> Token (Spec a) = None)
      \<longrightarrow> readTokenFile w t = (w, t, Panic) \<and> GetCreds w t = (w, t, Panic))"
proof (cases "authObj t")
  case None
  then show ?thesis
    by (simp add: GetCreds_def readTokenFile_unbound)
next
  case (Some a)
  show ?thesis
  proof (cases "Token (Spec a)")
    case None
    with Some show ?thesis
      by (simp add: GetCreds_def readTokenFile_unbound)
  next
    case c: (Some c)
    with Some show ?thesis
      by (simp add: GetCreds_def readTokenFile_bound [OF Some c] split: sum.splits)
  qed
qed

theorem nil_configuration_panics_witness:
  "readTokenFile test_world empty_provider = (test_world, empty_provider, Panic)
   \<and> GetCreds test_world empty_provider = (test_world, empty_provider, Panic)
   \<and> GetCreds test_world (NewTokenCredentialProvider (Some missing_token_auth) ''ns'' [])
       = (test_world, NewTokenCredentialProvider (Some missing_token_auth) ''ns'' [], Panic)
   \<and> snd (snd (GetCreds test_world (test_provider ''/non/existent/path''))) \<noteq> Panic"
  using nil_configuration_panics [of test_world empty_provider]
    nil_configuration_panics
      [of test_world "NewTokenCredentialProvider (Some missing_token_auth) ''ns'' []"]
    nil_configuration_panics [of test_world "test_provider ''/non/existent/path''"]
  by (simp add: empty_provider_def NewTokenCredentialProvider_def missing_token_auth_def
      test_provider_def token_auth_def)

text \<open>
  C3 (fail-fast equivalence), as stated, fails for the missing sub-configuration: \<open>Init\<close>
  returns the error "token auth method not configured", while \<open>readTokenFile\<close> on a
  provider bound to the same configuration returns no error: it panics on the nil
  \<open>Token\<close> pointer.
\<close>

theorem Init_fail_fast_counterexample:
  "returned_error (snd (snd (Init Validate test_world empty_provider (Some missing_token_auth)
      ''test-provider-namespace'')))
   \<and> \<not> returned_error (map_outcome snd (snd (snd (readTokenFile test_world
      (NewTokenCredentialProvider (Some missing_token_auth) ''test-provider-namespace'' [])))))
   \<and> snd (snd (readTokenFile test_world
      (NewTokenCredentialProvider (Some missing_token_auth) ''test-provider-namespace'' [])))
     = Panic"
  by (simp add: Init_def readTokenFile_def missing_token_auth_def
      NewTokenCredentialProvider_def)

text \<open>
  C3, amended. For a configuration whose token sub-configuration is present, \<open>Init\<close> (with the
  validation that rejects exactly the empty \<open>FilePath\<close>) returns an error if and only if
  \<open>readTokenFile\<close>, on any provider bound to that configuration and in the same world,
  returns an error. For a configuration whose sub-configuration is absent, \<open>Init\<close> returns
  an error and \<open>readTokenFile\<close> panics.
\<close>

theorem Init_fail_fast_equivalence:
  assumes "authObj tb = Some a"
  shows "case Token (Spec a) of
           Some c \<Rightarrow>
             returned_error (snd (snd (Init Validate w t (Some a) ns)))
               \<longleftrightarrow> returned_error (map_outcome snd (snd (snd (readTokenFile w tb))))
         | None \<Rightarrow>
             returned_error (snd (snd (Init Validate w t (Some a) ns)))
               \<and> snd (snd (readTokenFile w tb)) = Panic"
proof (cases "Token (Spec a)")
  case None
  with assms show ?thesis
    by (simp add: Init_missing readTokenFile_unbound)
next
  case (Some c)
  show ?thesis
  proof (cases "FilePath c = []")
    case True
    then have "Validate c = Some (GoError ''empty filePath'' None)"
      by (simp add: Validate_def)
    with Some True show ?thesis
      by (simp add: Init_invalid readTokenFile_bound [OF assms Some])
  next
    case False
    then have "Validate c = None"
      by (simp add: Validate_def)
    from Init_validated [of a c Validate, OF Some this] Some False show ?thesis
      by (simp add: readTokenFile_bound [OF assms Some] split: sum.splits)
  qed
qed

theorem Init_fail_fast_equivalence_witness:
  "(returned_error (snd (snd (Init Validate test_world empty_provider
        (Some (token_auth ''/non/existent/path'')) ''test-provider-namespace'')))
      \<longleftrightarrow> returned_error (map_outcome snd (snd (snd (readTokenFile test_world
        (test_provider ''/non/existent/path''))))))
   \<and> returned_error (map_outcome snd (snd (snd (readTokenFile test_world
        (test_provider ''/non/existent/path'')))))
   \<and> (returned_error (snd (snd (Init Validate test_world empty_provider
        (Some (token_auth ''/tmp/token-test/valid-token'')) ''test-provider-namespace'')))
      \<longleftrightarrow> returned_error (map_outcome snd (snd (snd (readTokenFile test_world
        (test_provider ''/tmp/token-test/valid-token''))))))
   \<and> \<not> returned_error (map_outcome snd (snd (snd (readTokenFile test_world
        (test_provider ''/tmp/token-test/valid-token'')))))
   \<and> returned_error (snd (snd (Init Validate test_world empty_provider
        (Some missing_token_auth) ''test-provider-namespace'')))
   \<and> snd (snd (readTokenFile test_world
        (NewTokenCredentialProvider (Some missing_token_auth) ''test-provider-namespace'' [])))
       = Panic"
proof -
  have a: "authObj (test_provider p) = Some (token_auth p)" for p
    by (simp add: test_provider_def)
  have b: "authObj (NewTokenCredentialProvider (Some missing_token_auth)
      ''test-provider-namespace'' []) = Some missing_token_auth"
    by (simp add: NewTokenCredentialProvider_def)
  have c: "Token (Spec (token_auth p)) = Some \<lparr>FilePath = p\<rparr>" for p
    by (simp add: token_auth_def)
  have d: "Token (Spec missing_token_auth) = None"
    by (simp add: missing_token_auth_def)
  show ?thesis
    using Init_fail_fast_equivalence [where tb = "test_provider ''/non/existent/path''"
        and a = "token_auth ''/non/existent/path''" and w = test_world
        and t = empty_provider and ns = "''test-provider-namespace''"]
      Init_fail_fast_equivalence [where tb = "test_provider ''/tmp/token-test/valid-token''"
        and a = "token_auth ''/tmp/token-test/valid-token''" and w = test_world
        and t = empty_provider and ns = "''test-provider-namespace''"]
      Init_fail_fast_equivalence [where tb = "NewTokenCredentialProvider
          (Some missing_token_auth) ''test-provider-namespace'' []"
        and a = missing_token_auth and w = test_world
        and t = empty_provider and ns = "''test-provider-namespace''"]
    by (simp add: a b c d readTokenFile_test_provider test_world_def test_files_def
        TrimSpace_valid)
qed

text \<open>
  C7 (state unchanged when \<open>Init\<close> fails), as stated, fails when the error comes from the
  fail-fast read: \<open>Init\<close> on an empty provider with the path \<open>/non/existent/path\<close> returns an
  error, and the provider is left with \<open>authObj\<close> and \<open>providerNamespace\<close> bound.
\<close>

theorem Init_error_state_counterexample:
  "returned_error (snd (snd (Init Validate test_world empty_provider
      (Some (token_auth ''/non/existent/path'')) ''test-provider-namespace'')))
   \<and> fst (snd (Init Validate test_world empty_provider
      (Some (token_auth ''/non/existent/path'')) ''test-provider-namespace''))
     = \<lparr>authObj = Some (token_auth ''/non/existent/path''),
        providerNamespace = ''test-provider-namespace'', uid = []\<rparr>
   \<and> fst (snd (Init Validate test_world empty_provider
      (Some (token_auth ''/non/existent/path'')) ''test-provider-namespace''))
     \<noteq> empty_provider"
proof -
  have "Token (Spec (token_auth ''/non/existent/path''))
      = Some \<lparr>FilePath = ''/non/existent/path''\<rparr>"
    by (simp add: token_auth_def)
  moreover have "Validate \<lparr>FilePath = ''/non/existent/path''\<rparr> = None"
    by (simp add: Validate_def)
  ultimately show ?thesis
    by (simp add: Init_validated test_world_def test_files_def empty_provider_def)
qed

text \<open>
  C7, amended. Whenever \<open>Init\<close> returns an error, \<open>uid\<close> is unchanged. When the error is that
  of the missing or of the invalid sub-configuration, the whole provider is unchanged; when
  the error is that of the fail-fast read, \<open>authObj\<close> and \<open>providerNamespace\<close> hold the
  arguments of the call and nothing else has changed.
\<close>

theorem Init_error_state:
  assumes "Init validate w t (Some a) ns = (w', t', Return (Some e))"
  shows "uid t' = uid t \<and>
    (case Token (Spec a) of
       None \<Rightarrow> t' = t
     | Some c \<Rightarrow>
        (case validate c of
           Some cause \<Rightarrow> t' = t
         | None \<Rightarrow> t' = t\<lparr>authObj := Some a, providerNamespace := ns\<rparr>))"
proof (cases "Token (Spec a)")
  case None
  with assms show ?thesis
    by (simp add: Init_missing)
next
  case c: (Some c)
  show ?thesis
  proof (cases "validate c")
    case None
    from assms show ?thesis
      unfolding Init_validated [of a c validate, OF c None]
      using c None by (auto split: if_splits sum.splits)
  next
    case (Some cause)
    with assms c show ?thesis
      by (simp add: Init_invalid)
  qed
qed

theorem Init_error_state_witness:
  "fst (snd (Init Validate test_world empty_provider (Some missing_token_auth)
      ''test-provider-namespace'')) = empty_provider
   \<and> fst (snd (Init Validate test_world empty_provider (Some (token_auth []))
      ''test-provider-namespace'')) = empty_provider
   \<and> fst (snd (Init Validate test_world empty_provider
      (Some (token_auth ''/tmp/token-test/empty-token'')) ''test-provider-namespace''))
     = \<lparr>authObj = Some (token_auth ''/tmp/token-test/empty-token''),
        providerNamespace = ''test-provider-namespace'', uid = []\<rparr>"
proof -
  obtain w1 t1 e1 where 1: "Init Validate test_world empty_provider (Some missing_token_auth)
      ''test-provider-namespace'' = (w1, t1, Return (Some e1))"
    by (simp add: Init_def missing_token_auth_def)
  obtain w2 t2 e2 where 2: "Init Validate test_world empty_provider (Some (token_auth []))
      ''test-provider-namespace'' = (w2, t2, Return (Some e2))"
    by (simp add: Init_def token_auth_def Validate_def)
  have "Token (Spec (token_auth ''/tmp/token-test/empty-token''))
      = Some \<lparr>FilePath = ''/tmp/token-test/empty-token''\<rparr>"
    and v: "Validate \<lparr>FilePath = ''/tmp/token-test/empty-token''\<rparr> = None"
    by (simp_all add: token_auth_def Validate_def)
  then obtain w3 t3 e3 where 3: "Init Validate test_world empty_provider
      (Some (token_auth ''/tmp/token-test/empty-token'')) ''test-provider-namespace''
      = (w3, t3, Return (Some e3))"
    by (simp add: Init_validated test_world_def test_files_def TrimSpace_empty)
  from Init_error_state [OF 1] have "t1 = empty_provider"
    by (simp add: missing_token_auth_def)
  moreover from Init_error_state [OF 2] have "t2 = empty_provider"
    by (simp add: token_auth_def Validate_def)
  moreover from Init_error_state [OF 3] v have "t3 = \<lparr>authObj = Some (token_auth ''/tmp/token-test/empty-token''),
        providerNamespace = ''test-provider-namespace'', uid = []\<rparr>"
    by (simp add: token_auth_def empty_provider_def)
  ultimately show ?thesis
    using 1 2 3 by simp
qed

text \<open>
  C9 (accessor purity). \<open>GetNamespace\<close> and \<open>GetUID\<close> are total functions of the provider
  (of a non-nil receiver). They return what the constructor was given; after a successful
  \<open>Init\<close> they return the namespace of the call and the static identifier. \<open>GetCreds\<close>
  returns the provider as it received it, so after any number of \<open>GetCreds\<close> calls,
  whatever the file system holds at each call, both accessors return what they returned
  before.
\<close>

theorem accessors_unaffected:
  "GetNamespace (NewTokenCredentialProvider ao ns u) = ns
   \<and> GetUID (NewTokenCredentialProvider ao ns u) = u
   \<and> (Init validate w t ao' ns' = (w1, t1, Return None) \<longrightarrow>
        GetNamespace t1 = ns' \<and> GetUID t1 = ''token-file-provider'')
   \<and> fst (snd (GetCreds w2 t2)) = t2
   \<and> snd (GetCreds_calls fss w2 t2) = t2
   \<and> GetNamespace (snd (GetCreds_calls fss w2 t2)) = GetNamespace t2
   \<and> GetUID (snd (GetCreds_calls fss w2 t2)) = GetUID t2"
  using Init_success_state [of validate w t ao' ns' w1 t1]
  by (simp add: GetCreds_calls_provider GetCreds_provider GetNamespace_def GetUID_def
      NewTokenCredentialProvider_def)

theorem accessors_unaffected_witness:
  "GetNamespace (snd (GetCreds_calls [test_files, no_files, test_files] test_world
      (fst (snd (Init Validate test_world empty_provider
         (Some (token_auth ''/tmp/token-test/valid-token'')) ''test-provider-namespace'')))))
     = ''test-provider-namespace''
   \<and> GetUID (snd (GetCreds_calls [test_files, no_files, test_files] test_world
      (fst (snd (Init Validate test_world empty_provider
         (Some (token_auth ''/tmp/token-test/valid-token'')) ''test-provider-namespace'')))))
     = ''token-file-provider''"
  using accessors_unaffected [of None "[]" "[]" Validate test_world empty_provider
      "Some (token_auth ''/tmp/token-test/valid-token'')" "''test-provider-namespace''"
      "test_world\<lparr>reads := [''/tmp/token-test/valid-token'']\<rparr>"
      "\<lparr>authObj = Some (token_auth ''/tmp/token-test/valid-token''),
       providerNamespace = ''test-provider-namespace'', uid = ''token-file-provider''\<rparr>"
      test_world
      "\<lparr>authObj = Some (token_auth ''/tmp/token-test/valid-token''),
       providerNamespace = ''test-provider-namespace'', uid = ''token-file-provider''\<rparr>"
      "[test_files, no_files, test_files]"]
  by (simp add: Init_valid_token)

text \<open>
  C6 (whitespace idempotence). \<open>S\<close> has no leading or trailing white space: it neither
  starts nor ends with a space rune. One provider is bound to a file that holds two
  blanks, \<open>S\<close>, a line feed and a tab, another to a file that holds \<open>S\<close>. Then both
  \<open>GetCreds\<close> calls return the same credential set; for a non-empty \<open>S\<close> both return
  \<open>{"token": S}\<close> and a nil error, and for one path read in two file systems the whole
  results are equal (for an empty \<open>S\<close> both fail, each error naming its own path).
  Equivalently, a token that \<open>readTokenFile\<close> returns is the contents without their leading
  and trailing white space: the contents are space runes, then the token, then space
  runes, and the token neither starts nor ends with a space rune. Blank, tab, line feed
  and carriage return are space runes (Go's \<open>unicode.IsSpace\<close> has more: vertical tab,
  form feed and the Unicode spaces listed with \<open>unicodeSpace\<close>).
\<close>

theorem whitespace_idempotence:
  "(leadingSpace S = None \<and> trailingSpace S = None
      \<and> authObj t1 = Some a1 \<and> Token (Spec a1) = Some c1 \<and> FilePath c1 \<noteq> []
      \<and> authObj t2 = Some a2 \<and> Token (Spec a2) = Some c2 \<and> FilePath c2 \<noteq> []
      \<and> files w1 (FilePath c1) = Inr (''  '' @ S @ [CHR 0x0A, CHR 0x09])
      \<and> files w2 (FilePath c2) = Inr S
    \<longrightarrow> map_outcome fst (snd (snd (GetCreds w1 t1)))
          = map_outcome fst (snd (snd (GetCreds w2 t2)))
      \<and> (S \<noteq> [] \<longrightarrow>
           snd (snd (GetCreds w1 t1)) = Return (Some [''token'' \<mapsto> S], None)
           \<and> snd (snd (GetCreds w2 t2)) = Return (Some [''token'' \<mapsto> S], None))
      \<and> (FilePath c1 = FilePath c2 \<longrightarrow>
           snd (snd (GetCreds w1 t1)) = snd (snd (GetCreds w2 t2))))
   \<and> (authObj t = Some a \<and> Token (Spec a) = Some c \<and> files w (FilePath c) = Inr data
      \<and> snd (snd (readTokenFile w t)) = Return (tok, None)
    \<longrightarrow> tok = TrimSpace data \<and> leadingSpace tok = None \<and> trailingSpace tok = None
      \<and> (\<exists>ls rs. set ls \<subseteq> set spaceRunes \<and> set rs \<subseteq> set spaceRunes
            \<and> data = concat ls @ tok @ concat rs))
   \<and> set [[CHR 0x20], [CHR 0x09], [CHR 0x0A], [CHR 0x0D]] \<subseteq> set spaceRunes"
proof (intro conjI impI)
  assume h: "leadingSpace S = None \<and> trailingSpace S = None
      \<and> authObj t1 = Some a1 \<and> Token (Spec a1) = Some c1 \<and> FilePath c1 \<noteq> []
      \<and> authObj t2 = Some a2 \<and> Token (Spec a2) = Some c2 \<and> FilePath c2 \<noteq> []
      \<and> files w1 (FilePath c1) = Inr (''  '' @ S @ [CHR 0x0A, CHR 0x09])
      \<and> files w2 (FilePath c2) = Inr S"
  then have ls: "leadingSpace S = None" and ts: "trailingSpace S = None"
    by simp_all
  have p: "TrimSpace (''  '' @ S @ [CHR 0x0A, CHR 0x09]) = S"
    using ls ts by (rule TrimSpace_padded)
  have q: "TrimSpace S = S"
    using ls ts by (rule TrimSpace_trimmed)
  from h have b1: "authObj t1 = Some a1" "Token (Spec a1) = Some c1"
    and b2: "authObj t2 = Some a2" "Token (Spec a2) = Some c2"
    by simp_all
  from h have f1: "files w1 (FilePath c1) = Inr (''  '' @ S @ [CHR 0x0A, CHR 0x09])"
    and f2: "files w2 (FilePath c2) = Inr S" and n: "FilePath c1 \<noteq> []" "FilePath c2 \<noteq> []"
    by simp_all
  have r1: "snd (snd (GetCreds w1 t1)) =
      (if S = [] then Return (None, Some (GoError (''token file '' @ FilePath c1 @
          '' is empty or contains only whitespace'') None))
       else Return (Some [''token'' \<mapsto> S], None))"
    using n(1) p by (simp add: GetCreds_def readTokenFile_bound [OF b1] f1)
  have r2: "snd (snd (GetCreds w2 t2)) =
      (if S = [] then Return (None, Some (GoError (''token file '' @ FilePath c2 @
          '' is empty or contains only whitespace'') None))
       else Return (Some [''token'' \<mapsto> S], None))"
    using n(2) by (simp add: GetCreds_def readTokenFile_bound [OF b2] f2 q)
  show "map_outcome fst (snd (snd (GetCreds w1 t1)))
      = map_outcome fst (snd (snd (GetCreds w2 t2)))"
    by (simp add: r1 r2)
  show "snd (snd (GetCreds w1 t1)) = Return (Some [''token'' \<mapsto> S], None)" if "S \<noteq> []"
    using that by (simp add: r1)
  show "snd (snd (GetCreds w2 t2)) = Return (Some [''token'' \<mapsto> S], None)" if "S \<noteq> []"
    using that by (simp add: r2)
  show "snd (snd (GetCreds w1 t1)) = snd (snd (GetCreds w2 t2))"
    if "FilePath c1 = FilePath c2"
    using that by (simp add: r1 r2)
next
  assume h: "authObj t = Some a \<and> Token (Spec a) = Some c \<and> files w (FilePath c) = Inr data
      \<and> snd (snd (readTokenFile w t)) = Return (tok, None)"
  then have b: "authObj t = Some a" "Token (Spec a) = Some c"
    by simp_all
  from h have "files w (FilePath c) = Inr data"
    and "snd (snd (readTokenFile w t)) = Return (tok, None)"
    by simp_all
  then show tok: "tok = TrimSpace data"
    by (simp add: readTokenFile_bound [OF b] split: if_splits)
  show "leadingSpace tok = None" and "trailingSpace tok = None"
    by (simp_all add: tok leadingSpace_TrimSpace trailingSpace_TrimSpace)
  show "\<exists>ls rs. set ls \<subseteq> set spaceRunes \<and> set rs \<subseteq> set spaceRunes
      \<and> data = concat ls @ tok @ concat rs"
    unfolding tok by (rule TrimSpace_decomp)
next
  show "set [[CHR 0x20], [CHR 0x09], [CHR 0x0A], [CHR 0x0D]] \<subseteq> set spaceRunes"
    by (simp add: spaceRunes_def asciiSpace_def)
qed

theorem whitespace_idempotence_witness:
  "snd (snd (GetCreds
       (test_world\<lparr>files := written_file ''/tmp/token-test/padded''
          (''  '' @ ''vault-token-value'' @ [CHR 0x0A, CHR 0x09])\<rparr>)
       (test_provider ''/tmp/token-test/padded'')))
     = Return (Some [''token'' \<mapsto> ''vault-token-value''], None)
   \<and> snd (snd (GetCreds test_world (test_provider ''/tmp/token-test/valid-token'')))
     = Return (Some [''token'' \<mapsto> ''vault-token-value''], None)
   \<and> (\<exists>ls rs. set ls \<subseteq> set spaceRunes \<and> set rs \<subseteq> set spaceRunes
        \<and> ''  vault-token-value'' @ [CHR 0x0A] @ ''  ''
            = concat ls @ ''vault-token-value'' @ concat rs)"
proof -
  let ?S = "''vault-token-value''"
  let ?w1 = "test_world\<lparr>files := written_file ''/tmp/token-test/padded''
          (''  '' @ ?S @ [CHR 0x0A, CHR 0x09])\<rparr>"
  let ?p1 = "''/tmp/token-test/padded''"
  let ?p2 = "''/tmp/token-test/valid-token''"
  let ?p3 = "''/tmp/token-test/token-with-whitespace''"
  let ?data = "''  vault-token-value'' @ [CHR 0x0A] @ ''  ''"
  note W = whitespace_idempotence [where S = ?S
      and ?t1.0 = "test_provider ?p1" and ?a1.0 = "token_auth ?p1"
      and ?c1.0 = "\<lparr>FilePath = ?p1\<rparr>"
      and ?t2.0 = "test_provider ?p2" and ?a2.0 = "token_auth ?p2"
      and ?c2.0 = "\<lparr>FilePath = ?p2\<rparr>"
      and ?w1.0 = ?w1 and ?w2.0 = test_world
      and t = "test_provider ?p3" and a = "token_auth ?p3"
      and c = "\<lparr>FilePath = ?p3\<rparr>"
      and w = test_world and data = ?data and tok = ?S]
  have H1: "leadingSpace ?S = None \<and> trailingSpace ?S = None
      \<and> authObj (test_provider ?p1) = Some (token_auth ?p1)
      \<and> Token (Spec (token_auth ?p1)) = Some \<lparr>FilePath = ?p1\<rparr>
      \<and> FilePath \<lparr>FilePath = ?p1\<rparr> \<noteq> []
      \<and> authObj (test_provider ?p2) = Some (token_auth ?p2)
      \<and> Token (Spec (token_auth ?p2)) = Some \<lparr>FilePath = ?p2\<rparr>
      \<and> FilePath \<lparr>FilePath = ?p2\<rparr> \<noteq> []
      \<and> files ?w1 (FilePath \<lparr>FilePath = ?p1\<rparr>) = Inr (''  '' @ ?S @ [CHR 0x0A, CHR 0x09])
      \<and> files test_world (FilePath \<lparr>FilePath = ?p2\<rparr>) = Inr ?S"
    using leadingSpace_valid trailingSpace_valid
    by (simp add: test_provider_def token_auth_def written_file_def test_world_def
        test_files_def)
  have H2: "authObj (test_provider ?p3) = Some (token_auth ?p3)
      \<and> Token (Spec (token_auth ?p3)) = Some \<lparr>FilePath = ?p3\<rparr>
      \<and> files test_world (FilePath \<lparr>FilePath = ?p3\<rparr>) = Inr ?data
      \<and> snd (snd (readTokenFile test_world (test_provider ?p3))) = Return (?S, None)"
  proof -
    have "snd (snd (readTokenFile test_world (test_provider ?p3))) = Return (?S, None)"
      using TrimSpace_with_whitespace
      by (simp add: readTokenFile_test_provider test_world_def test_files_def)
    then show ?thesis
      by (simp add: test_provider_def token_auth_def test_world_def test_files_def)
  qed
  have ne: "?S \<noteq> []"
    by simp
  note A = W [THEN conjunct1, THEN mp, OF H1, THEN conjunct2, THEN conjunct1, THEN mp, OF ne]
  note B = W [THEN conjunct2, THEN conjunct1, THEN mp, OF H2]
  from A B show ?thesis
    by blast
qed

end
